theory Spec2Isabelle
  imports Main
begin

section \<open>Python values and the object store\<close>

text \<open>
  The module \<^verbatim>\<open>src/apify/scrapy/requests.py\<close> converts between a Scrapy request
  object and an Apify request dictionary. Both functions work on dynamically typed
  values and test their types at run time, and \<^verbatim>\<open>to_apify_request\<close> writes into a
  dictionary that may be shared with its input. The model therefore keeps the
  mutable objects (dictionaries and requests) in a store and lets values refer to
  them by address.

  The universe of values is: \<^verbatim>\<open>None\<close>, booleans, integers, strings, and references
  to dictionaries and to request objects. An address beyond the end of the store
  denotes no object and behaves as a value of some other type. Only string keys of
  dictionaries are modelled, since the module only ever looks up string keys.
\<close>

type_synonym addr = nat

datatype pyval = PNone | PBool bool | PInt int | PStr string | PRef addr

type_synonym pydict = "string \<rightharpoonup> pyval"

text \<open>The contents of a \<^verbatim>\<open>scrapy.http.headers.Headers\<close> collection: a name may carry several values.\<close>

type_synonym hdrs = "string \<rightharpoonup> string list"

text \<open>
  The \<^verbatim>\<open>headers\<close> attribute of a request is either an instance of the \<^verbatim>\<open>Headers\<close>
  class or some other value; the module tests which with \<^verbatim>\<open>isinstance\<close>.
\<close>

datatype hfield = Headers hdrs | NotHeaders pyval

text \<open>
  The value of an object graph as the serializer writes it (sharing forgotten). The
  module only hands such values from \<^verbatim>\<open>to_dict\<close> to \<^verbatim>\<open>pickle.dumps\<close> and from
  \<^verbatim>\<open>pickle.loads\<close> to \<^verbatim>\<open>request_from_dict\<close>, and tests whether one is a dictionary.
\<close>

datatype deep = DNone | DBool bool | DInt int | DStr string | DDict "(string \<times> deep) list"

text \<open>
  Modelled from the spec: the class \<^verbatim>\<open>scrapy.Request\<close> is not part of the repository.
  Following the data model of the spec, a request has a url, a method, headers, the
  \<^verbatim>\<open>meta\<close> dictionary and the framework-internal fields (callbacks, priority, flags,
  ...), which the module never inspects. The \<^verbatim>\<open>meta\<close> dictionary is owned by its
  request: neither function lets a reference to it escape, so it is kept inside the
  request object; its values may refer to shared objects.
\<close>

record request =
  url :: pyval
  method' :: pyval
  headers :: hfield
  meta :: pydict
  internal :: "(string \<times> deep) list"

datatype obj = Dict pydict | Request request

datatype exn = TypeError string | ValueError string | KeyError string

datatype level = DEBUG | WARNING

text \<open>
  The state threaded through a call: the object store and the entries written to
  \<^verbatim>\<open>Actor.log\<close>. Objects are allocated at the end of the store, so an allocation
  never disturbs an existing object.
\<close>

record state =
  heap :: "obj list"
  logs :: "(level \<times> string) list"

definition obj_at :: "state \<Rightarrow> addr \<Rightarrow> obj option" where
  "obj_at s a = (if a < length (heap s) then Some (heap s ! a) else None)"

definition alloc :: "obj \<Rightarrow> state \<Rightarrow> addr \<times> state" where
  "alloc ob s = (length (heap s), s\<lparr>heap := heap s @ [ob]\<rparr>)"

definition store :: "addr \<Rightarrow> obj \<Rightarrow> state \<Rightarrow> state" where
  "store a ob s = s\<lparr>heap := (heap s)[a := ob]\<rparr>"

definition emit :: "level \<Rightarrow> string \<Rightarrow> state \<Rightarrow> state" where
  "emit l m s = s\<lparr>logs := logs s @ [(l, m)]\<rparr>"

text \<open>\<^verbatim>\<open>isinstance(v, dict)\<close> and \<^verbatim>\<open>isinstance(v, Request)\<close>, returning the object.\<close>

fun as_dict :: "state \<Rightarrow> pyval \<Rightarrow> pydict option" where
  "as_dict s (PRef a) = (case obj_at s a of Some (Dict m) \<Rightarrow> Some m | _ \<Rightarrow> None)"
| "as_dict s _ = None"

fun as_Request :: "state \<Rightarrow> pyval \<Rightarrow> request option" where
  "as_Request s (PRef a) = (case obj_at s a of Some (Request r) \<Rightarrow> Some r | _ \<Rightarrow> None)"
| "as_Request s _ = None"

text \<open>The dictionary stored at an address known to hold one.\<close>

definition the_dict :: "state \<Rightarrow> addr \<Rightarrow> pydict" where
  "the_dict s a = (case obj_at s a of Some (Dict m) \<Rightarrow> m | _ \<Rightarrow> Map.empty)"

text \<open>\<^verbatim>\<open>d.get(k)\<close>: the value, or \<^verbatim>\<open>None\<close> when the key is absent.\<close>

definition dict_get :: "pydict \<Rightarrow> string \<Rightarrow> pyval" where
  "dict_get m k = (case m k of Some v \<Rightarrow> v | None \<Rightarrow> PNone)"

text \<open>\<^verbatim>\<open>d[k] = v\<close> on a dictionary created by the running call.\<close>

definition dict_store :: "addr \<Rightarrow> string \<Rightarrow> pyval \<Rightarrow> state \<Rightarrow> state" where
  "dict_store a k v s = store a (Dict ((the_dict s a)(k \<mapsto> v))) s"

text \<open>Python's truth value of an object, as tested by \<^verbatim>\<open>if x:\<close>.\<close>

fun truthy :: "state \<Rightarrow> pyval \<Rightarrow> bool" where
  "truthy s PNone = False"
| "truthy s (PBool b) = b"
| "truthy s (PInt i) = (i \<noteq> 0)"
| "truthy s (PStr x) = (x \<noteq> [])"
| "truthy s (PRef a) = (case obj_at s a of Some (Dict m) \<Rightarrow> m \<noteq> Map.empty | _ \<Rightarrow> True)"

fun is_prefix :: "string \<Rightarrow> string \<Rightarrow> bool" where
  "is_prefix [] ys = True"
| "is_prefix (x # xs) [] = False"
| "is_prefix (x # xs) (y # ys) = (x = y \<and> is_prefix xs ys)"

fun is_substring :: "string \<Rightarrow> string \<Rightarrow> bool" where
  "is_substring xs [] = (xs = [])"
| "is_substring xs (y # ys) = (is_prefix xs (y # ys) \<or> is_substring xs ys)"

text \<open>
  \<^verbatim>\<open>k in v\<close> for a string \<^verbatim>\<open>k\<close>: key membership in a dictionary, substring test in a
  string, and a \<^verbatim>\<open>TypeError\<close> for a value that is no container. (The texts of
  the errors raised by the Python runtime are abbreviated.)
\<close>

fun contains :: "state \<Rightarrow> string \<Rightarrow> pyval \<Rightarrow> exn + bool" where
  "contains s k (PStr x) = Inr (is_substring k x)"
| "contains s k (PRef a) =
     (case obj_at s a of
        Some (Dict m) \<Rightarrow> Inr (m k \<noteq> None)
      | _ \<Rightarrow> Inl (TypeError ''argument is not iterable''))"
| "contains s k _ = Inl (TypeError ''argument is not iterable'')"

text \<open>\<^verbatim>\<open>v[k]\<close> for a string \<^verbatim>\<open>k\<close>.\<close>

fun getitem :: "state \<Rightarrow> pyval \<Rightarrow> string \<Rightarrow> exn + pyval" where
  "getitem s (PRef a) k =
     (case obj_at s a of
        Some (Dict m) \<Rightarrow> (case m k of Some v \<Rightarrow> Inr v | None \<Rightarrow> Inl (KeyError k))
      | _ \<Rightarrow> Inl (TypeError ''object is not subscriptable''))"
| "getitem s (PStr x) k = Inl (TypeError ''string indices must be integers'')"
| "getitem s _ k = Inl (TypeError ''object is not subscriptable'')"

text \<open>\<^verbatim>\<open>v[k] = w\<close> for a string \<^verbatim>\<open>k\<close>: only a dictionary supports it.\<close>

fun setitem :: "pyval \<Rightarrow> string \<Rightarrow> pyval \<Rightarrow> state \<Rightarrow> exn + state" where
  "setitem (PRef a) k w s =
     (case obj_at s a of
        Some (Dict m) \<Rightarrow> Inr (store a (Dict (m(k \<mapsto> w))) s)
      | _ \<Rightarrow> Inl (TypeError ''object does not support item assignment''))"
| "setitem _ k w s = Inl (TypeError ''object does not support item assignment'')"

section \<open>The framework and the serializer\<close>

text \<open>
  Scrapy (\<^verbatim>\<open>Headers\<close>, \<^verbatim>\<open>Request.to_dict\<close>, \<^verbatim>\<open>request_from_dict\<close>) and the serializer
  (\<^verbatim>\<open>pickle\<close> with the \<^verbatim>\<open>base64\<close> codec) are libraries outside the repository. Their
  operations are parameters of the model:
  \<^item> \<^verbatim>\<open>to_unicode_dict\<close> flattens a header collection to a string-to-string mapping;
  \<^item> \<^verbatim>\<open>Headers_of\<close> is the constructor \<^verbatim>\<open>Headers(d)\<close> applied to a dictionary;
  \<^item> \<^verbatim>\<open>to_dict\<close> exports the fields of a request, read from the current store;
  \<^item> \<^verbatim>\<open>dumps\<close> is \<^verbatim>\<open>codecs.encode(pickle.dumps(d), 'base64').decode()\<close>;
  \<^item> \<^verbatim>\<open>loads\<close> is \<^verbatim>\<open>pickle.loads(codecs.decode(s.encode(), 'base64'))\<close>, which may raise;
  \<^item> \<^verbatim>\<open>request_from_dict\<close> builds objects from an exported dictionary: given the
    first free address it returns the new objects, allocated from that address on,
    and its result value, or raises. It does not change existing objects.
\<close>

record framework =
  to_unicode_dict :: "hdrs \<Rightarrow> string \<rightharpoonup> string"
  Headers_of :: "pydict \<Rightarrow> hdrs"
  to_dict :: "obj list \<Rightarrow> request \<Rightarrow> pyval \<Rightarrow> deep"
  dumps :: "deep \<Rightarrow> string"
  loads :: "string \<Rightarrow> exn + deep"
  request_from_dict :: "deep \<Rightarrow> pyval \<Rightarrow> addr \<Rightarrow> exn + obj list \<times> pyval"

fun is_DDict :: "deep \<Rightarrow> bool" where
  "is_DDict (DDict kvs) = True"
| "is_DDict _ = False"

section \<open>to_apify_request\<close>

text \<open>
  The random correlation id \<^verbatim>\<open>crypto_random_object_id(8)\<close> is the argument
  \<^verbatim>\<open>call_id\<close>. Log messages are kept without the interpolated object representations.
  The default \<^verbatim>\<open>{}\<close> of \<^verbatim>\<open>meta.get('userData', {})\<close> is allocated only when it is used.
  The request object is read once: nothing in the call writes to it.
\<close>

text \<open>
  Lines 38--42: the new dictionary with \<^verbatim>\<open>url\<close>, \<^verbatim>\<open>method\<close> and \<^verbatim>\<open>userData\<close>. The value
  under \<^verbatim>\<open>userData\<close> is the object found in \<^verbatim>\<open>meta\<close> itself, not a copy of it.
\<close>

definition new_apify_request :: "request \<Rightarrow> state \<Rightarrow> addr \<times> state" where
  "new_apify_request r s =
    (let (user_data, s1) =
           (case meta r ''userData'' of
              Some v \<Rightarrow> (v, s)
            | None \<Rightarrow> (let (a, s') = alloc (Dict Map.empty) s in (PRef a, s')))
     in alloc (Dict [''url'' \<mapsto> url r, ''method'' \<mapsto> method' r,
                     ''userData'' \<mapsto> user_data]) s1)"

text \<open>Lines 44--49: the headers, flattened, or a warning.\<close>

definition add_headers :: "framework \<Rightarrow> request \<Rightarrow> addr \<Rightarrow> state \<Rightarrow> state" where
  "add_headers fw r apify_request s =
    (case headers r of
       Headers h \<Rightarrow>
         (let (hdict, s') = alloc (Dict (map_option PStr \<circ> to_unicode_dict fw h)) s
          in dict_store apify_request ''headers'' (PRef hdict) s')
     | NotHeaders x \<Rightarrow>
         emit WARNING
           ''scrapy_request.headers is not an instance of the scrapy.http.headers.Headers class''
           s)"

text \<open>
  Lines 51--57, once for each identity field:
  \<^verbatim>\<open>if scrapy_request.meta.get(mk): apify_request[k] = scrapy_request.meta[mk]\<close>.
  A value that passes the test is present, so \<^verbatim>\<open>meta[mk]\<close> is \<^verbatim>\<open>meta.get(mk)\<close>.
\<close>

definition add_identity :: "request \<Rightarrow> string \<Rightarrow> string \<Rightarrow> addr \<Rightarrow> state \<Rightarrow> state" where
  "add_identity r mk k apify_request s =
    (if truthy s (dict_get (meta r) mk)
     then dict_store apify_request k (dict_get (meta r) mk) s
     else s)"

text \<open>Lines 63--66: the serialized request is written into \<^verbatim>\<open>apify_request['userData']\<close>.\<close>

definition add_snapshot :: "framework \<Rightarrow> request \<Rightarrow> pyval \<Rightarrow> addr \<Rightarrow> state \<Rightarrow> exn + state" where
  "add_snapshot fw r spider apify_request s =
    (let scrapy_request_dict = to_dict fw (heap s) r spider;
         scrapy_request_dict_encoded = dumps fw scrapy_request_dict
     in setitem (dict_get (the_dict s apify_request) ''userData'') ''scrapy_request''
          (PStr scrapy_request_dict_encoded) s)"

definition to_apify_request ::
  "framework \<Rightarrow> string \<Rightarrow> pyval \<Rightarrow> pyval \<Rightarrow> state \<Rightarrow> (exn + pyval) \<times> state" where
  "to_apify_request fw call_id scrapy_request spider s =
    (case as_Request s scrapy_request of
       None \<Rightarrow>
         (Inl (TypeError ''scrapy_request must be an instance of the scrapy.Request class''), s)
     | Some r \<Rightarrow>
        (let s1 = emit DEBUG (''['' @ call_id @ '']: to_apify_request was called'') s;
             (apify_request, s3) = new_apify_request r s1;
             s4 = add_headers fw r apify_request s3;
             s5 = add_identity r ''apify_request_id'' ''id'' apify_request s4;
             s6 = add_identity r ''apify_request_unique_key'' ''uniqueKey'' apify_request s5
         in case add_snapshot fw r spider apify_request s6 of
              Inl e \<Rightarrow> (Inl e, s6)
            | Inr s7 \<Rightarrow>
                (Inr (PRef apify_request),
                 emit DEBUG
                   (''['' @ call_id @ '']: scrapy_request was converted to the apify_request'')
                   s7)))"

section \<open>to_scrapy_request\<close>

definition required_keys :: "string list" where
  "required_keys = [''url'', ''method'', ''id'', ''uniqueKey'']"

text \<open>
  \<^verbatim>\<open>repr\<close> of a string without quotes, backslashes or unprintable characters, which
  is all that \<^verbatim>\<open>required_keys\<close> holds.
\<close>

definition py_repr :: "string \<Rightarrow> string" where
  "py_repr k = [CHR 0x27] @ k @ [CHR 0x27]"

fun join :: "string \<Rightarrow> string list \<Rightarrow> string" where
  "join sep [] = []"
| "join sep [x] = x"
| "join sep (x # y # ys) = x @ sep @ join sep (y # ys)"

text \<open>\<^verbatim>\<open>[key for key in required_keys if key not in apify_request]\<close>\<close>

definition missing_keys :: "pydict \<Rightarrow> string list" where
  "missing_keys apify_request = filter (\<lambda>key. apify_request key = None) required_keys"

definition missing_keys_message :: "string list \<Rightarrow> string" where
  "missing_keys_message ks =
     ''apify_request must contain '' @ join '', '' (map py_repr ks) @ '' key(s)''"

text \<open>
  Modelled from the spec: the constructor \<^verbatim>\<open>Request(url=..., method=..., meta=...)\<close> is
  not part of the repository. Following the spec (``synthesize a new CrawlerRequest
  directly from url/method''), it stores its arguments as they are; the headers of
  the new request are an empty collection and it has no further internal fields.
\<close>

definition new_Request :: "pyval \<Rightarrow> pyval \<Rightarrow> pydict \<Rightarrow> request" where
  "new_Request u m mt =
     \<lparr>url = u, method' = m, headers = Headers Map.empty, meta = mt, internal = []\<rparr>"

text \<open>
  The end of \<^verbatim>\<open>to_scrapy_request\<close>, common to both branches: the optional
  \<^verbatim>\<open>headers\<close> and \<^verbatim>\<open>userData\<close> fields are set on the request at address \<^verbatim>\<open>a\<close>.
\<close>

definition add_optional_fields ::
  "framework \<Rightarrow> string \<Rightarrow> pydict \<Rightarrow> addr \<Rightarrow> request \<Rightarrow> state \<Rightarrow> (exn + pyval) \<times> state" where
  "add_optional_fields fw call_id apify_request a r s =
    (let (r1, s1) =
           (case apify_request ''headers'' of
              None \<Rightarrow> (r, s)
            | Some hv \<Rightarrow>
                (case as_dict s hv of
                   Some hdict \<Rightarrow> (r\<lparr>headers := Headers (Headers_of fw hdict)\<rparr>, s)
                 | None \<Rightarrow>
                     (r, emit WARNING
                           ''apify_request[headers] is not an instance of the dict class'' s)));
         r2 =
           (case apify_request ''userData'' of
              None \<Rightarrow> r1
            | Some ud \<Rightarrow> r1\<lparr>meta := (meta r1)(''userData'' \<mapsto> ud)\<rparr>);
         s2 = store a (Request r2) s1
     in (Inr (PRef a),
         emit DEBUG (''['' @ call_id @ '']: an apify_request was converted to the scrapy_request'')
           s2))"

text \<open>
  The test \<^verbatim>\<open>'userData' in apify_request and 'scrapy_request' in apify_request['userData']\<close>.
\<close>

definition has_snapshot :: "state \<Rightarrow> pydict \<Rightarrow> exn + bool" where
  "has_snapshot s apify_request =
     (case apify_request ''userData'' of
        None \<Rightarrow> Inr False
      | Some ud \<Rightarrow> contains s ''scrapy_request'' ud)"

text \<open>
  The request built in either branch is a new object that nothing else refers to
  until the function returns, so both branches yield its address together with its
  attributes, the common end of the function updates the attributes, and the object
  is written to the store once. The dictionary \<^verbatim>\<open>apify_request\<close> is read once: nothing
  in the call writes to it. After the validation the four required keys are present,
  so \<^verbatim>\<open>apify_request[k]\<close> is \<^verbatim>\<open>apify_request.get(k)\<close> for them.
\<close>

text \<open>Lines 103--122: the request is restored from the serialized copy.\<close>

definition restore_request ::
  "framework \<Rightarrow> string \<Rightarrow> pydict \<Rightarrow> pyval \<Rightarrow> state \<Rightarrow> (exn + addr \<times> request) \<times> state" where
  "restore_request fw call_id apify_request spider s =
    (let s2 = emit DEBUG
                (''['' @ call_id @ '']: Restoring the Scrapy Request from the apify_request'') s
     in case getitem s2 (dict_get apify_request ''userData'') ''scrapy_request'' of
          Inl e \<Rightarrow> (Inl e, s2)
        | Inr (PStr scrapy_request_dict_encoded) \<Rightarrow>
           (case loads fw scrapy_request_dict_encoded of
              Inl e \<Rightarrow> (Inl e, s2)
            | Inr scrapy_request_dict \<Rightarrow>
               if \<not> is_DDict scrapy_request_dict
               then (Inl (TypeError ''scrapy_request_dict must be a dictionary''), s2)
               else
                (case request_from_dict fw scrapy_request_dict spider (length (heap s2)) of
                   Inl e \<Rightarrow> (Inl e, s2)
                 | Inr (objs, scrapy_request) \<Rightarrow>
                    (let s3 = s2\<lparr>heap := heap s2 @ objs\<rparr> in
                     case (scrapy_request, as_Request s3 scrapy_request) of
                       (PRef a, Some r) \<Rightarrow>
                        (let s4 = emit DEBUG
                                    (''['' @ call_id @ '']: Scrapy Request successfully reconstructed'')
                                    s3;
                             meta0 = (if meta r = Map.empty then Map.empty else meta r);
                             meta1 = meta0(''apify_request_id'' \<mapsto> dict_get apify_request ''id'',
                                           ''apify_request_unique_key'' \<mapsto>
                                              dict_get apify_request ''uniqueKey'')
                         in (Inr (a, r\<lparr>meta := meta1\<rparr>), s4))
                     | _ \<Rightarrow>
                        (Inl (TypeError ''scrapy_request must be an instance of the Request class''),
                         s3))))
        | Inr _ \<Rightarrow> (Inl (TypeError ''scrapy_request_dict_encoded must be a string''), s2))"

text \<open>Lines 126--135: a new request is created from the url and the method.\<close>

definition create_request :: "string \<Rightarrow> pydict \<Rightarrow> state \<Rightarrow> (exn + addr \<times> request) \<times> state" where
  "create_request call_id apify_request s =
    (let s2 = emit DEBUG
                (''['' @ call_id @ '']: gonna create a new Scrapy Request (cannot be restored)'') s;
         r = new_Request (dict_get apify_request ''url'') (dict_get apify_request ''method'')
               [''apify_request_id'' \<mapsto> dict_get apify_request ''id'',
                ''apify_request_unique_key'' \<mapsto> dict_get apify_request ''uniqueKey''];
         (a, s3) = alloc (Request r) s2
     in (Inr (a, r), s3))"

definition to_scrapy_request ::
  "framework \<Rightarrow> string \<Rightarrow> pyval \<Rightarrow> pyval \<Rightarrow> state \<Rightarrow> (exn + pyval) \<times> state" where
  "to_scrapy_request fw call_id apify_request spider s =
    (case as_dict s apify_request of
       None \<Rightarrow> (Inl (TypeError ''apify_request must be a dictionary''), s)
     | Some d \<Rightarrow>
        (if missing_keys d \<noteq> []
         then (Inl (ValueError (missing_keys_message (missing_keys d))), s)
         else
          (let s1 = emit DEBUG (''['' @ call_id @ '']: to_scrapy_request was called'') s in
           case has_snapshot s1 d of
             Inl e \<Rightarrow> (Inl e, s1)
           | Inr snapshot \<Rightarrow>
              (case (if snapshot then restore_request fw call_id d spider s1
                     else create_request call_id d s1) of
                 (Inl e, s') \<Rightarrow> (Inl e, s')
               | (Inr (a, r), s') \<Rightarrow> add_optional_fields fw call_id d a r s'))))"

section \<open>An instance of the framework\<close>

text \<open>
  A small framework and serializer on which the theorems below are exercised. Its
  exporter writes the url, the method and the two identity entries of \<^verbatim>\<open>meta\<close>, as
  strings; its serializer joins the four strings with a bar and its deserializer
  splits them again; the text \<^verbatim>\<open>null\<close> deserializes to \<^verbatim>\<open>None\<close>.
\<close>

fun split_on :: "char \<Rightarrow> string \<Rightarrow> string list" where
  "split_on c [] = [[]]"
| "split_on c (x # xs) =
     (if x = c then [] # split_on c xs
      else (case split_on c xs of [] \<Rightarrow> [[x]] | y # ys \<Rightarrow> (x # y) # ys))"

definition str_of :: "pyval \<Rightarrow> string" where
  "str_of v = (case v of PStr x \<Rightarrow> x | _ \<Rightarrow> [])"

definition demo_to_dict :: "obj list \<Rightarrow> request \<Rightarrow> pyval \<Rightarrow> deep" where
  "demo_to_dict hp r spider =
     DDict [(''url'', DStr (str_of (url r))), (''method'', DStr (str_of (method' r))),
            (''apify_request_id'', DStr (str_of (dict_get (meta r) ''apify_request_id''))),
            (''apify_request_unique_key'',
               DStr (str_of (dict_get (meta r) ''apify_request_unique_key'')))]"

fun demo_str :: "deep \<Rightarrow> string" where
  "demo_str (DStr x) = x"
| "demo_str _ = []"

fun demo_dumps :: "deep \<Rightarrow> string" where
  "demo_dumps (DDict kvs) = join ''|'' (map (demo_str \<circ> snd) kvs)"
| "demo_dumps _ = ''null''"

definition demo_loads :: "string \<Rightarrow> exn + deep" where
  "demo_loads x =
     (if x = ''null'' then Inr DNone
      else (case split_on CHR ''|'' x of
              [u, m, i, k] \<Rightarrow>
                Inr (DDict [(''url'', DStr u), (''method'', DStr m),
                            (''apify_request_id'', DStr i),
                            (''apify_request_unique_key'', DStr k)])
            | _ \<Rightarrow> Inl (ValueError ''invalid payload'')))"

definition demo_request_from_dict :: "deep \<Rightarrow> pyval \<Rightarrow> addr \<Rightarrow> exn + obj list \<times> pyval" where
  "demo_request_from_dict d spider n =
     (case d of
        DDict [(ku, DStr u), (km, DStr m), (ki, DStr i), (kk, DStr k)] \<Rightarrow>
          Inr ([Request \<lparr>url = PStr u, method' = PStr m, headers = Headers Map.empty,
                          meta = [''apify_request_id'' \<mapsto> PStr i,
                                  ''apify_request_unique_key'' \<mapsto> PStr k],
                          internal = []\<rparr>],
               PRef n)
      | _ \<Rightarrow> Inl (ValueError ''cannot build a request''))"

definition demo_framework :: framework where
  "demo_framework =
     \<lparr>to_unicode_dict = (\<lambda>h k. map_option (join '','') (h k)),
      Headers_of = (\<lambda>d k. case d k of Some (PStr x) \<Rightarrow> Some [x] | _ \<Rightarrow> None),
      to_dict = demo_to_dict,
      dumps = demo_dumps,
      loads = demo_loads,
      request_from_dict = demo_request_from_dict\<rparr>"

section \<open>Conditions used in the statements\<close>

text \<open>
  The value of \<^verbatim>\<open>meta['userData']\<close> can be written to: it is absent (a new dictionary
  is then used) or it is a dictionary.
\<close>

definition userData_usable :: "state \<Rightarrow> request \<Rightarrow> bool" where
  "userData_usable s r =
     (case meta r ''userData'' of None \<Rightarrow> True | Some v \<Rightarrow> as_dict s v \<noteq> None)"







text \<open>The entries written to the log by \<^verbatim>\<open>to_apify_request\<close>.\<close>

abbreviation "called_msg cid \<equiv> (DEBUG, ''['' @ cid @ '']: to_apify_request was called'')"
abbreviation "converted_msg cid \<equiv>
  (DEBUG, ''['' @ cid @ '']: scrapy_request was converted to the apify_request'')"
abbreviation "headers_warning \<equiv>
  (WARNING, ''scrapy_request.headers is not an instance of the scrapy.http.headers.Headers class'')"


section \<open>Example requests and stores\<close>

definition demo_request :: request where
  "demo_request =
     \<lparr>url = PStr ''http://x'', method' = PStr ''GET'',
      headers = Headers [''Accept'' \<mapsto> [''text/html'']],
      meta = [''apify_request_id'' \<mapsto> PStr ''1'',
              ''apify_request_unique_key'' \<mapsto> PStr ''k1''],
      internal = []\<rparr>"








text \<open>A request whose \<^verbatim>\<open>meta['userData']\<close> is the dictionary \<^verbatim>\<open>{'foo': 'bar'}\<close> at address 1.\<close>

definition shared_request :: request where
  "shared_request =
     demo_request\<lparr>meta := [''apify_request_id'' \<mapsto> PStr ''1'',
                             ''apify_request_unique_key'' \<mapsto> PStr ''k1'',
                             ''userData'' \<mapsto> PRef 1]\<rparr>"

definition shared_store :: state where
  "shared_store =
     \<lparr>heap = [Request shared_request, Dict [''foo'' \<mapsto> PStr ''bar'']], logs = []\<rparr>"




text \<open>The record \<^verbatim>\<open>{url: "http://x", method: "GET"}\<close>.\<close>

definition incomplete_store :: state where
  "incomplete_store =
     \<lparr>heap = [Dict [''url'' \<mapsto> PStr ''http://x'', ''method'' \<mapsto> PStr ''GET'']], logs = []\<rparr>"



text \<open>
  A record with the identity \<^verbatim>\<open>new\<close>, \<^verbatim>\<open>newkey\<close> whose \<^verbatim>\<open>userData\<close> (at address 1)
  holds the serialized copy of a request with the identity \<^verbatim>\<open>old\<close>, \<^verbatim>\<open>oldkey\<close>.
\<close>

definition snapshot_store :: state where
  "snapshot_store =
     \<lparr>heap = [Dict [''url'' \<mapsto> PStr ''http://x'', ''method'' \<mapsto> PStr ''GET'',
                      ''id'' \<mapsto> PStr ''new'', ''uniqueKey'' \<mapsto> PStr ''newkey'',
                      ''userData'' \<mapsto> PRef 1],
               Dict [''scrapy_request'' \<mapsto> PStr ''http://x|GET|old|oldkey'']],
      logs = []\<rparr>"


text \<open>The request that the example framework builds from that serialized copy.\<close>

definition restored_request :: request where
  "restored_request = \<lparr>url = PStr ''http://x'', method' = PStr ''GET'', headers = Headers Map.empty,
                          meta = [''apify_request_id'' \<mapsto> PStr ''old'',
                                  ''apify_request_unique_key'' \<mapsto> PStr ''oldkey''],
                          internal = []\<rparr>"


section \<open>The store operations\<close>

lemma heap_emit [simp]: "heap (emit l m s) = heap s"
  by (simp add: emit_def)

lemma logs_emit [simp]: "logs (emit l m s) = logs s @ [(l, m)]"
  by (simp add: emit_def)

lemma obj_at_emit [simp]: "obj_at (emit l m s) a = obj_at s a"
  by (simp add: obj_at_def)

lemma heap_store [simp]: "heap (store a ob s) = (heap s)[a := ob]"
  by (simp add: store_def)

lemma logs_store [simp]: "logs (store a ob s) = logs s"
  by (simp add: store_def)

lemma obj_at_store:
  "obj_at (store a ob s) b = (if b = a \<and> a < length (heap s) then Some ob else obj_at s b)"
  by (simp add: obj_at_def)

lemma alloc_props:
  assumes "alloc ob s = (a, s')"
  shows "a = length (heap s)" and "heap s' = heap s @ [ob]" and "logs s' = logs s"
    and "obj_at s' b = (if b = a then Some ob else obj_at s b)"
  using assms by (auto simp: alloc_def obj_at_def nth_append)

lemma obj_at_lt: "obj_at s a = Some ob \<Longrightarrow> a < length (heap s)"
  by (simp add: obj_at_def split: if_splits)



lemma as_dict_Some_iff: "as_dict s v = Some m \<longleftrightarrow> (\<exists>a. v = PRef a \<and> obj_at s a = Some (Dict m))"
  by (cases v) (auto split: option.splits obj.splits)

lemma as_Request_Some_iff:
  "as_Request s v = Some r \<longleftrightarrow> (\<exists>a. v = PRef a \<and> obj_at s a = Some (Request r))"
  by (cases v) (auto split: option.splits obj.splits)














lemma as_dict_emit [simp]: "as_dict (emit l m s) v = as_dict s v"
  by (cases v) simp_all

lemma as_Request_emit [simp]: "as_Request (emit l m s) v = as_Request s v"
  by (cases v) simp_all

lemma userData_usable_emit [simp]: "userData_usable (emit l m s) r = userData_usable s r"
  by (simp add: userData_usable_def split: option.splits)





section \<open>The steps of to_scrapy_request\<close>

lemma contains_emit [simp]: "contains (emit l m s) k v = contains s k v"
  by (cases v) simp_all

lemma getitem_emit [simp]: "getitem (emit l m s) v k = getitem s v k"
  by (cases v) simp_all

lemma has_snapshot_emit [simp]: "has_snapshot (emit l m s) d = has_snapshot s d"
  by (simp add: has_snapshot_def split: option.splits)


lemma add_optional_fields_ok:
  assumes "a < length (heap s)"
  obtains r' s' where "add_optional_fields fw cid d a r s = (Inr (PRef a), s')"
    and "obj_at s' a = Some (Request r')"
    and "url r' = url r" and "method' r' = method' r" and "internal r' = internal r"
    and "meta r' = (case d ''userData'' of None \<Rightarrow> meta r | Some ud \<Rightarrow> (meta r)(''userData'' \<mapsto> ud))"
    and "headers r' = (case d ''headers'' of
                         None \<Rightarrow> headers r
                       | Some hv \<Rightarrow> (case as_dict s hv of
                                        Some hdict \<Rightarrow> Headers (Headers_of fw hdict)
                                      | None \<Rightarrow> headers r))"
    and "\<And>b. b \<noteq> a \<Longrightarrow> obj_at s' b = obj_at s b"
    and "length (heap s') = length (heap s)"
proof -
  define r1 where "r1 = (case d ''headers'' of
                         None \<Rightarrow> r
                       | Some hv \<Rightarrow> (case as_dict s hv of
                                        Some hdict \<Rightarrow> r\<lparr>headers := Headers (Headers_of fw hdict)\<rparr>
                                      | None \<Rightarrow> r))"
  define s1 where "s1 = (case d ''headers'' of
                         None \<Rightarrow> s
                       | Some hv \<Rightarrow> (case as_dict s hv of
                                        Some hdict \<Rightarrow> s
                                      | None \<Rightarrow> emit WARNING
                           ''apify_request[headers] is not an instance of the dict class'' s))"
  define r2 where "r2 = (case d ''userData'' of
              None \<Rightarrow> r1
            | Some ud \<Rightarrow> r1\<lparr>meta := (meta r1)(''userData'' \<mapsto> ud)\<rparr>)"
  define s' where "s' = emit DEBUG (''['' @ cid @ '']: an apify_request was converted to the scrapy_request'')
           (store a (Request r2) s1)"
  have eq: "add_optional_fields fw cid d a r s = (Inr (PRef a), s')"
    unfolding s'_def r2_def r1_def s1_def
    by (simp add: add_optional_fields_def Let_def split: option.splits)
  have hs1: "heap s1 = heap s" by (simp add: s1_def split: option.splits)
  have o1: "\<And>b. obj_at s1 b = obj_at s b" by (simp add: obj_at_def hs1)
  show ?thesis
  proof (rule that[OF eq, of r2])
    show "obj_at s' a = Some (Request r2)"
      using assms by (simp add: s'_def obj_at_store hs1)
    show "url r2 = url r" "method' r2 = method' r" "internal r2 = internal r"
      by (simp_all add: r2_def r1_def split: option.splits)
    show "meta r2 = (case d ''userData'' of None \<Rightarrow> meta r | Some ud \<Rightarrow> (meta r)(''userData'' \<mapsto> ud))"
      by (simp add: r2_def r1_def split: option.splits)
    show "headers r2 = (case d ''headers'' of
                         None \<Rightarrow> headers r
                       | Some hv \<Rightarrow> (case as_dict s hv of
                                        Some hdict \<Rightarrow> Headers (Headers_of fw hdict)
                                      | None \<Rightarrow> headers r))"
      by (simp add: r2_def r1_def split: option.splits)
    show "obj_at s' b = obj_at s b" if "b \<noteq> a" for b
      using that by (simp add: s'_def obj_at_store o1)
    show "length (heap s') = length (heap s)" by (simp add: s'_def hs1)
  qed
qed



lemma obj_at_heap_cong: "heap s' = heap s \<Longrightarrow> obj_at s' a = obj_at s a"
  by (simp add: obj_at_def)

lemma as_Request_heap_cong: "heap s' = heap s \<Longrightarrow> as_Request s' v = as_Request s v"
  by (cases v) (simp_all add: obj_at_def)

lemma as_dict_heap_cong: "heap s' = heap s \<Longrightarrow> as_dict s' v = as_dict s v"
  by (cases v) (simp_all add: obj_at_def)

lemma obj_at_append:
  "obj_at s a = Some ob \<Longrightarrow> obj_at (s\<lparr>heap := heap s @ objs\<rparr>) a = Some ob"
  by (simp add: obj_at_def nth_append split: if_splits)


lemma restore_request_eq:
  assumes UD: "d ''userData'' = Some ud" and M: "as_dict s ud = Some m"
    and S: "m ''scrapy_request'' = Some (PStr enc)"
    and L: "loads fw enc = Inr dd" and DD: "is_DDict dd"
    and RFD: "request_from_dict fw dd sp (length (heap s)) = Inr (objs, PRef a)"
    and RQ: "as_Request (s\<lparr>heap := heap s @ objs\<rparr>) (PRef a) = Some r0"
  shows "restore_request fw cid d sp s =
     (Inr (a, r0\<lparr>meta := (meta r0)(''apify_request_id'' \<mapsto> dict_get d ''id'',
                                       ''apify_request_unique_key'' \<mapsto> dict_get d ''uniqueKey'')\<rparr>),
      emit DEBUG (''['' @ cid @ '']: Scrapy Request successfully reconstructed'')
        ((emit DEBUG (''['' @ cid @ '']: Restoring the Scrapy Request from the apify_request'') s)
           \<lparr>heap := heap s @ objs\<rparr>))"
proof -
  obtain u where u: "ud = PRef u" "obj_at s u = Some (Dict m)"
    using M by (auto simp: as_dict_Some_iff)
  have g: "getitem s ud ''scrapy_request'' = Inr (PStr enc)"
    by (simp add: u S)
  have rq: "as_Request (s2\<lparr>heap := heap s @ objs\<rparr>) (PRef a) = Some r0" for s2 :: state
  proof -
    have "as_Request (s2\<lparr>heap := heap s @ objs\<rparr>) (PRef a) =
          as_Request (s\<lparr>heap := heap s @ objs\<rparr>) (PRef a)"
      by (rule as_Request_heap_cong) simp
    with RQ show ?thesis by simp
  qed
  show ?thesis
    unfolding restore_request_def Let_def
    by (simp add: dict_get_def UD g L DD RFD rq del: as_Request.simps)
qed


lemma to_scrapy_request_restore:
  assumes D: "as_dict s v = Some d" and K: "missing_keys d = []"
    and UD: "d ''userData'' = Some ud" and M: "as_dict s ud = Some m"
    and S: "m ''scrapy_request'' = Some (PStr enc)"
    and L: "loads fw enc = Inr dd" and DD: "is_DDict dd"
    and RFD: "request_from_dict fw dd sp (length (heap s)) = Inr (objs, PRef a)"
    and RQ: "as_Request (s\<lparr>heap := heap s @ objs\<rparr>) (PRef a) = Some r0"
  obtains r s' where "to_scrapy_request fw cid v sp s = (Inr (PRef a), s')"
    and "obj_at s' a = Some (Request r)"
    and "url r = url r0" and "method' r = method' r0" and "internal r = internal r0"
    and "meta r = (meta r0)(''apify_request_id'' \<mapsto> dict_get d ''id'',
                            ''apify_request_unique_key'' \<mapsto> dict_get d ''uniqueKey'',
                            ''userData'' \<mapsto> ud)"
    and "headers r = (case d ''headers'' of
                         None \<Rightarrow> headers r0
                       | Some hv \<Rightarrow> (case as_dict (s\<lparr>heap := heap s @ objs\<rparr>) hv of
                                        Some hdict \<Rightarrow> Headers (Headers_of fw hdict)
                                      | None \<Rightarrow> headers r0))"
    and "\<And>b. b < length (heap s) \<Longrightarrow> b \<noteq> a \<Longrightarrow> obj_at s' b = obj_at s b"
proof -
  define r1 where "r1 = r0\<lparr>meta := (meta r0)(''apify_request_id'' \<mapsto> dict_get d ''id'',
                                       ''apify_request_unique_key'' \<mapsto> dict_get d ''uniqueKey'')\<rparr>"
  define s1 where "s1 = emit DEBUG (''['' @ cid @ '']: to_scrapy_request was called'') s"
  define s4 where "s4 = emit DEBUG (''['' @ cid @ '']: Scrapy Request successfully reconstructed'')
        ((emit DEBUG (''['' @ cid @ '']: Restoring the Scrapy Request from the apify_request'') s1)
           \<lparr>heap := heap s1 @ objs\<rparr>)"
  obtain u where u: "ud = PRef u" "obj_at s u = Some (Dict m)"
    using M by (auto simp: as_dict_Some_iff)
  have H: "has_snapshot s d = Inr True" by (simp add: has_snapshot_def UD u S)
  have hs1: "heap s1 = heap s" by (simp add: s1_def)
  have H1: "has_snapshot s1 d = Inr True" using H by (simp add: s1_def)
  have M1: "as_dict s1 ud = Some m" using M by (simp add: s1_def)
  have RFD1: "request_from_dict fw dd sp (length (heap s1)) = Inr (objs, PRef a)"
    using RFD by (simp add: hs1)
  have "as_Request (s1\<lparr>heap := heap s1 @ objs\<rparr>) (PRef a) =
        as_Request (s\<lparr>heap := heap s @ objs\<rparr>) (PRef a)"
    by (rule as_Request_heap_cong) (simp add: hs1)
  with RQ have RQ1: "as_Request (s1\<lparr>heap := heap s1 @ objs\<rparr>) (PRef a) = Some r0" by simp
  have R1: "restore_request fw cid d sp s1 = (Inr (a, r1), s4)"
    unfolding r1_def s4_def using UD M1 S L DD RFD1 RQ1 by (rule restore_request_eq)
  have eq: "to_scrapy_request fw cid v sp s = add_optional_fields fw cid d a r1 s4"
    unfolding to_scrapy_request_def Let_def s1_def[symmetric]
    by (simp add: D K H1 R1 del: as_dict.simps)
  have hs4: "heap s4 = heap s @ objs" by (simp add: s4_def s1_def)
  have "as_Request s4 (PRef a) = as_Request (s\<lparr>heap := heap s @ objs\<rparr>) (PRef a)"
    by (rule as_Request_heap_cong) (simp add: hs4)
  with RQ have RQ4: "as_Request s4 (PRef a) = Some r0" by simp
  have alt: "a < length (heap s4)"
    using RQ4 unfolding as_Request_Some_iff by (auto dest: obj_at_lt)
  have as4: "as_dict s4 x = as_dict (s\<lparr>heap := heap s @ objs\<rparr>) x" for x
    by (rule as_dict_heap_cong) (simp add: hs4)
  obtain r s' where a1: "add_optional_fields fw cid d a r1 s4 = (Inr (PRef a), s')"
    and a2: "obj_at s' a = Some (Request r)"
    and a3: "url r = url r1" "method' r = method' r1" "internal r = internal r1"
    and a4: "meta r = (case d ''userData'' of None \<Rightarrow> meta r1 | Some ud \<Rightarrow> (meta r1)(''userData'' \<mapsto> ud))"
    and h: "headers r = (case d ''headers'' of
                         None \<Rightarrow> headers r1
                       | Some hv \<Rightarrow> (case as_dict s4 hv of
                                        Some hdict \<Rightarrow> Headers (Headers_of fw hdict)
                                      | None \<Rightarrow> headers r1))"
    and o: "\<And>b. b \<noteq> a \<Longrightarrow> obj_at s' b = obj_at s4 b"
    by (rule add_optional_fields_ok[OF alt, of fw cid d r1]) blast
  have old: "obj_at s4 b = obj_at s b" if "b < length (heap s)" for b
    using that by (simp add: hs4 obj_at_def nth_append)
  show ?thesis
  proof (rule that[of s' r])
    show "to_scrapy_request fw cid v sp s = (Inr (PRef a), s')" by (simp add: eq a1)
    show "obj_at s' a = Some (Request r)" by (rule a2)
    show "url r = url r0" "method' r = method' r0" "internal r = internal r0"
      by (simp_all add: a3 r1_def)
    show "meta r = (meta r0)(''apify_request_id'' \<mapsto> dict_get d ''id'',
                            ''apify_request_unique_key'' \<mapsto> dict_get d ''uniqueKey'',
                            ''userData'' \<mapsto> ud)"
      by (simp add: a4 UD r1_def)
    show "headers r = (case d ''headers'' of
                         None \<Rightarrow> headers r0
                       | Some hv \<Rightarrow> (case as_dict (s\<lparr>heap := heap s @ objs\<rparr>) hv of
                                        Some hdict \<Rightarrow> Headers (Headers_of fw hdict)
                                      | None \<Rightarrow> headers r0))"
      by (simp add: h as4 r1_def split: option.splits)
    show "obj_at s' b = obj_at s b" if "b < length (heap s)" "b \<noteq> a" for b
      using that by (simp add: o old)
  qed
qed

section \<open>Evaluation on the example framework\<close>

lemmas demo_eval = to_apify_request_def new_apify_request_def add_headers_def add_identity_def
  add_snapshot_def alloc_def store_def emit_def dict_store_def the_dict_def obj_at_def
  dict_get_def Let_def demo_framework_def demo_to_dict_def str_of_def


lemma required_keys_present:
  "(\<forall>k \<in> set required_keys. d k \<noteq> None) \<longleftrightarrow> missing_keys d = []"
  by (auto simp: missing_keys_def required_keys_def)

lemma dict_get_Some: "d k \<noteq> None \<Longrightarrow> Some (dict_get d k) = d k"
  by (auto simp: dict_get_def)

lemma snapshot_store_facts:
  "as_dict snapshot_store (PRef 0) = Some (the_dict snapshot_store 0)"
  "the_dict snapshot_store 0 ''url'' = Some (PStr ''http://x'')"
  "the_dict snapshot_store 0 ''method'' = Some (PStr ''GET'')"
  "the_dict snapshot_store 0 ''id'' = Some (PStr ''new'')"
  "the_dict snapshot_store 0 ''uniqueKey'' = Some (PStr ''newkey'')"
  "the_dict snapshot_store 0 ''userData'' = Some (PRef 1)"
  "as_dict snapshot_store (PRef 1) = Some (the_dict snapshot_store 1)"
  "the_dict snapshot_store 1 ''scrapy_request'' = Some (PStr ''http://x|GET|old|oldkey'')"
  "length (heap snapshot_store) = 2"
  by (simp_all add: snapshot_store_def the_dict_def obj_at_def)

lemma demo_loads_snapshot:
  "loads demo_framework ''http://x|GET|old|oldkey'' =
     Inr (DDict [(''url'', DStr ''http://x''), (''method'', DStr ''GET''),
                 (''apify_request_id'', DStr ''old''),
                 (''apify_request_unique_key'', DStr ''oldkey'')])"
  by (simp add: demo_framework_def demo_loads_def)

lemma demo_request_from_dict_snapshot:
  "request_from_dict demo_framework
     (DDict [(''url'', DStr ''http://x''), (''method'', DStr ''GET''),
             (''apify_request_id'', DStr ''old''),
             (''apify_request_unique_key'', DStr ''oldkey'')]) sp n =
   Inr ([Request restored_request], PRef n)"
  by (simp add: demo_framework_def demo_request_from_dict_def restored_request_def)



lemma names_exactly_missing:
  assumes "k \<in> set required_keys"
  shows "is_substring (py_repr k) (missing_keys_message (missing_keys d)) \<longleftrightarrow> d k = None"
proof -
  consider "k = ''url''" | "k = ''method''" | "k = ''id''" | "k = ''uniqueKey''"
    using assms by (auto simp: required_keys_def)
  then show ?thesis
    by cases
       (cases "d ''url''"; cases "d ''method''"; cases "d ''id''"; cases "d ''uniqueKey''";
        simp add: missing_keys_def required_keys_def missing_keys_message_def py_repr_def)+
qed











section \<open>Identity passthrough of to_apify_request\<close>




section \<open>The headers and the other fields written by to_apify_request\<close>




section \<open>The effect of to_apify_request on its input\<close>

text \<open>
  Claim C2 does not hold of the code. The request at address 0 has the dictionary
  \<^verbatim>\<open>{'foo': 'bar'}\<close> at address 1 as its \<^verbatim>\<open>meta['userData']\<close>. The returned dictionary (at
  address 2) shares that object, and after the call the dictionary at address 1, which
  is still the \<^verbatim>\<open>meta['userData']\<close> of the input, has the additional key
  \<^verbatim>\<open>scrapy_request\<close>.
\<close>

theorem to_apify_request_mutates_userData:
  "as_Request shared_store (PRef 0) = Some shared_request \<and>
   meta shared_request ''userData'' = Some (PRef 1) \<and>
   the_dict shared_store 1 = [''foo'' \<mapsto> PStr ''bar''] \<and>
   fst (to_apify_request demo_framework ''c'' (PRef 0) PNone shared_store) = Inr (PRef 2) \<and>
   the_dict (snd (to_apify_request demo_framework ''c'' (PRef 0) PNone shared_store)) 1 =
     [''foo'' \<mapsto> PStr ''bar'', ''scrapy_request'' \<mapsto> PStr ''http://x|GET|1|k1'']"
  by (simp add: demo_eval shared_store_def shared_request_def demo_request_def)

section \<open>A request created from a record without a serialized copy\<close>




section \<open>A request restored from its serialized copy\<close>

text \<open>
  Claim C4. For every record with the four required keys whose \<^verbatim>\<open>userData\<close> is a
  dictionary holding a string under \<^verbatim>\<open>scrapy_request\<close> that decodes to a dictionary
  from which \<^verbatim>\<open>request_from_dict\<close> builds a request, \<^verbatim>\<open>to_scrapy_request\<close> returns that
  request with \<^verbatim>\<open>meta['apify_request_id']\<close> and \<^verbatim>\<open>meta['apify_request_unique_key']\<close>
  equal to the record's \<^verbatim>\<open>id\<close> and \<^verbatim>\<open>uniqueKey\<close>, whatever identity the serialized copy
  carried.
\<close>

theorem to_scrapy_request_identity_overwrite:
  assumes "as_dict s v = Some d" and "\<forall>k \<in> set required_keys. d k \<noteq> None"
    and "d ''userData'' = Some ud" and "as_dict s ud = Some m"
    and "m ''scrapy_request'' = Some (PStr enc)"
    and "loads fw enc = Inr dd" and "is_DDict dd"
    and "request_from_dict fw dd sp (length (heap s)) = Inr (objs, PRef a)"
    and "as_Request (s\<lparr>heap := heap s @ objs\<rparr>) (PRef a) = Some r0"
  shows "\<exists>r s'. to_scrapy_request fw cid v sp s = (Inr (PRef a), s') \<and>
           obj_at s' a = Some (Request r) \<and>
           meta r ''apify_request_id'' = d ''id'' \<and>
           meta r ''apify_request_unique_key'' = d ''uniqueKey''"
proof -
  have K: "missing_keys d = []" using assms(2) by (rule iffD1[OF required_keys_present])
  have P: "d ''id'' \<noteq> None" "d ''uniqueKey'' \<noteq> None"
    using assms(2) by (simp_all add: required_keys_def)
  obtain r s' where "to_scrapy_request fw cid v sp s = (Inr (PRef a), s')"
    and "obj_at s' a = Some (Request r)"
    and "meta r = (meta r0)(''apify_request_id'' \<mapsto> dict_get d ''id'',
                            ''apify_request_unique_key'' \<mapsto> dict_get d ''uniqueKey'',
                            ''userData'' \<mapsto> ud)"
    using assms(1) K assms(3-9) by (rule to_scrapy_request_restore[of s v d ud m enc fw dd sp objs a r0 cid]) blast
  then show ?thesis
    using P by (intro exI[of _ r] exI[of _ s']) (simp add: dict_get_Some)
qed

text \<open>
  Claim C4 on the example of the spec: the serialized copy carries the identity
  \<^verbatim>\<open>old\<close>, the record the identity \<^verbatim>\<open>new\<close>, and the restored request has \<^verbatim>\<open>new\<close>.
\<close>

theorem to_scrapy_request_identity_overwrite_witness:
  "meta restored_request ''apify_request_id'' = Some (PStr ''old'') \<and>
   (\<exists>r s'. to_scrapy_request demo_framework ''c'' (PRef 0) PNone snapshot_store = (Inr (PRef 2), s') \<and>
       obj_at s' 2 = Some (Request r) \<and>
       meta r ''apify_request_id'' = Some (PStr ''new'') \<and>
       meta r ''apify_request_unique_key'' = Some (PStr ''newkey''))"
proof -
  have K: "\<forall>k \<in> set required_keys. the_dict snapshot_store 0 k \<noteq> None"
    by (simp add: required_keys_def snapshot_store_facts)
  have RFD: "request_from_dict demo_framework
     (DDict [(''url'', DStr ''http://x''), (''method'', DStr ''GET''),
             (''apify_request_id'', DStr ''old''),
             (''apify_request_unique_key'', DStr ''oldkey'')]) PNone (length (heap snapshot_store)) =
   Inr ([Request restored_request], PRef 2)"
    by (simp add: demo_request_from_dict_snapshot snapshot_store_facts)
  have RQ: "as_Request (snapshot_store\<lparr>heap := heap snapshot_store @ [Request restored_request]\<rparr>)
              (PRef 2) = Some restored_request"
    by (simp add: snapshot_store_def obj_at_def)
  from to_scrapy_request_identity_overwrite[OF snapshot_store_facts(1) K snapshot_store_facts(6,7,8)
       demo_loads_snapshot _ RFD RQ, of "''c''"]
  show ?thesis by (simp add: snapshot_store_facts restored_request_def)
qed


text \<open>
  Claim C10. In the same situation the returned request's \<^verbatim>\<open>meta['userData']\<close> is the
  record's \<^verbatim>\<open>userData\<close> object itself (the same reference), that dictionary is
  unchanged, and \<^verbatim>\<open>meta['userData']['scrapy_request']\<close> still evaluates to the
  serialized string: the copy is not removed when the request is restored.
\<close>

theorem to_scrapy_request_keeps_snapshot:
  assumes "as_dict s v = Some d" and "\<forall>k \<in> set required_keys. d k \<noteq> None"
    and "d ''userData'' = Some ud" and "as_dict s ud = Some m"
    and "m ''scrapy_request'' = Some (PStr enc)"
    and "loads fw enc = Inr dd" and "is_DDict dd"
    and "request_from_dict fw dd sp (length (heap s)) = Inr (objs, PRef a)"
    and "as_Request (s\<lparr>heap := heap s @ objs\<rparr>) (PRef a) = Some r0"
  shows "\<exists>r s'. to_scrapy_request fw cid v sp s = (Inr (PRef a), s') \<and>
           obj_at s' a = Some (Request r) \<and>
           meta r ''userData'' = Some ud \<and> as_dict s' ud = Some m \<and>
           getitem s' (dict_get (meta r) ''userData'') ''scrapy_request'' = Inr (PStr enc)"
proof -
  have K: "missing_keys d = []" using assms(2) by (rule iffD1[OF required_keys_present])
  obtain u where u: "ud = PRef u" "obj_at s u = Some (Dict m)"
    using assms(4) unfolding as_dict_Some_iff by blast
  have "obj_at (s\<lparr>heap := heap s @ objs\<rparr>) u = Some (Dict m)"
    using u(2) by (rule obj_at_append)
  moreover have "obj_at (s\<lparr>heap := heap s @ objs\<rparr>) a = Some (Request r0)"
    using assms(9) unfolding as_Request_Some_iff by blast
  ultimately have ua: "u \<noteq> a" by auto
  have ult: "u < length (heap s)" using u(2) by (rule obj_at_lt)
  obtain r s' where 1: "to_scrapy_request fw cid v sp s = (Inr (PRef a), s')"
    and 2: "obj_at s' a = Some (Request r)"
    and 3: "meta r = (meta r0)(''apify_request_id'' \<mapsto> dict_get d ''id'',
                            ''apify_request_unique_key'' \<mapsto> dict_get d ''uniqueKey'',
                            ''userData'' \<mapsto> ud)"
    and 4: "\<And>b. b < length (heap s) \<Longrightarrow> b \<noteq> a \<Longrightarrow> obj_at s' b = obj_at s b"
    using assms(1) K assms(3-9)
    by (rule to_scrapy_request_restore[of s v d ud m enc fw dd sp objs a r0 cid]) blast
  have 5: "obj_at s' u = Some (Dict m)" using 4[OF ult ua] u(2) by simp
  show ?thesis
    using 1 2 5 assms(5)
    by (intro exI[of _ r] exI[of _ s']) (simp add: 3 u(1) dict_get_def)
qed

text \<open>Claim C10 on the example record: \<^verbatim>\<open>userData\<close> is the dictionary at address 1.\<close>

theorem to_scrapy_request_keeps_snapshot_witness:
  "\<exists>r s'. to_scrapy_request demo_framework ''c'' (PRef 0) PNone snapshot_store = (Inr (PRef 2), s') \<and>
       obj_at s' 2 = Some (Request r) \<and>
       meta r ''userData'' = Some (PRef 1) \<and>
       getitem s' (dict_get (meta r) ''userData'') ''scrapy_request'' =
         Inr (PStr ''http://x|GET|old|oldkey'')"
proof -
  have K: "\<forall>k \<in> set required_keys. the_dict snapshot_store 0 k \<noteq> None"
    by (simp add: required_keys_def snapshot_store_facts)
  have RFD: "request_from_dict demo_framework
     (DDict [(''url'', DStr ''http://x''), (''method'', DStr ''GET''),
             (''apify_request_id'', DStr ''old''),
             (''apify_request_unique_key'', DStr ''oldkey'')]) PNone (length (heap snapshot_store)) =
   Inr ([Request restored_request], PRef 2)"
    by (simp add: demo_request_from_dict_snapshot snapshot_store_facts)
  have RQ: "as_Request (snapshot_store\<lparr>heap := heap snapshot_store @ [Request restored_request]\<rparr>)
              (PRef 2) = Some restored_request"
    by (simp add: snapshot_store_def obj_at_def)
  from to_scrapy_request_keeps_snapshot[OF snapshot_store_facts(1) K snapshot_store_facts(6,7,8)
       demo_loads_snapshot _ RFD RQ, of "''c''"]
  show ?thesis by simp blast
qed

section \<open>The validation of the required keys\<close>

text \<open>
  Claim C3. For every dictionary in which one of the keys \<^verbatim>\<open>url\<close>, \<^verbatim>\<open>method\<close>, \<^verbatim>\<open>id\<close>,
  \<^verbatim>\<open>uniqueKey\<close> is absent, \<^verbatim>\<open>to_scrapy_request\<close> fails with a \<^verbatim>\<open>ValueError\<close> and leaves
  the state as it is. The message lists the missing keys, in the order of
  \<^verbatim>\<open>required_keys\<close>: the quoted name of a required key occurs in the message exactly
  when that key is missing.
\<close>

theorem to_scrapy_request_missing_keys:
  assumes "as_dict s v = Some d" and "\<exists>k \<in> set required_keys. d k = None"
  shows "to_scrapy_request fw cid v sp s =
           (Inl (ValueError (missing_keys_message (missing_keys d))), s) \<and>
         set (missing_keys d) = {k \<in> set required_keys. d k = None} \<and>
         (\<forall>k \<in> set required_keys.
            is_substring (py_repr k) (missing_keys_message (missing_keys d)) \<longleftrightarrow> d k = None)"
proof -
  have "missing_keys d \<noteq> []"
    using assms(2) by (simp add: missing_keys_def filter_empty_conv)
  then have "to_scrapy_request fw cid v sp s =
           (Inl (ValueError (missing_keys_message (missing_keys d))), s)"
    by (simp add: to_scrapy_request_def assms(1))
  moreover have "set (missing_keys d) = {k \<in> set required_keys. d k = None}"
    by (auto simp: missing_keys_def)
  ultimately show ?thesis by (simp add: names_exactly_missing)
qed

text \<open>
  Claim C3 on the record \<^verbatim>\<open>{url: "http://x", method: "GET"}\<close> of the spec: the error
  names \<^verbatim>\<open>id\<close> and \<^verbatim>\<open>uniqueKey\<close>.
\<close>

theorem to_scrapy_request_missing_keys_witness:
  "as_dict incomplete_store (PRef 0) = Some (the_dict incomplete_store 0) \<and>
   to_scrapy_request demo_framework ''c'' (PRef 0) PNone incomplete_store =
     (Inl (ValueError (''apify_request must contain '' @ py_repr ''id'' @ '', '' @
                       py_repr ''uniqueKey'' @ '' key(s)'')), incomplete_store) \<and>
   missing_keys (the_dict incomplete_store 0) = [''id'', ''uniqueKey'']"
proof -
  have D: "as_dict incomplete_store (PRef 0) = Some (the_dict incomplete_store 0)"
    and v: "the_dict incomplete_store 0 ''url'' = Some (PStr ''http://x'')"
      "the_dict incomplete_store 0 ''method'' = Some (PStr ''GET'')"
      "the_dict incomplete_store 0 ''id'' = None"
      "the_dict incomplete_store 0 ''uniqueKey'' = None"
    by (simp_all add: incomplete_store_def the_dict_def obj_at_def)
  have E: "\<exists>k \<in> set required_keys. the_dict incomplete_store 0 k = None"
    by (simp add: required_keys_def v)
  have m: "missing_keys (the_dict incomplete_store 0) = [''id'', ''uniqueKey'']"
    by (simp add: missing_keys_def required_keys_def v)
  have "to_scrapy_request demo_framework ''c'' (PRef 0) PNone incomplete_store =
      (Inl (ValueError (missing_keys_message (missing_keys (the_dict incomplete_store 0)))),
       incomplete_store)"
    using to_scrapy_request_missing_keys[OF D E, of demo_framework "''c''" PNone]
    by (rule conjunct1)
  with D show ?thesis by (simp add: m missing_keys_message_def del: as_dict.simps)
qed



section \<open>The type errors\<close>





section \<open>The round trip\<close>





end
